theory Spec2Isabelle
  imports Complex_Main "HOL-Library.AList" "HOL-Library.Multiset"
begin

section \<open>Content discovery engine: the model\<close>

text \<open>
  A shallow embedding of the class \<open>ContentDiscoveryBot\<close> of
  \<open>content-discovery-integration.js\<close>: the four stores, the indexing pipeline
  (\<open>indexContent\<close> and what it calls), eviction, the statistics and the search.

  Conventions of the model.
  \<^item> A string is a list of code units below 256. \<open>toLowerCase\<close> maps \<open>A\<close>..\<open>Z\<close> and the
    upper-case letters of the Latin-1 block to their lower-case partners; the white space of
    \<open>\s\<close> is tab, line feed, vertical tab, form feed, carriage return, space and
    no-break space.
  \<^item> A JavaScript \<open>Map\<close> is an association list in insertion order with distinct keys:
    \<open>set\<close> is \<open>AList.update\<close> (an existing key keeps its place, a new key goes last),
    \<open>delete\<close> is \<open>AList.delete\<close>, \<open>get\<close> is \<open>map_of\<close>, \<open>size\<close> is \<open>length\<close>.
  \<^item> Instants are integers (milliseconds). Each reading of \<open>Date.now()\<close> is an argument.
  \<^item> A double is the rational number that it denotes. The quality score is a sum of
    doubles: each decimal literal and each sum is rounded to the nearest double
    (\<open>to_double\<close>). The confidence literals are stored as the fractions written; the
    language ratio and the age in hours are only compared with constants, and stand as
    exact fractions. A division whose divisor may be zero returns a \<open>js_number\<close>.
  \<^item> A thrown exception is a value of \<open>js_error\<close>.
  \<^item> The fields of a content object have the types that the three captures of the source
    give them: strings, a list of relationships, an integer timestamp. The text is the
    exception: the storage capture hands on the value that was passed to \<open>setItem\<close> as it
    is, so the text is a \<open>js_value\<close>, a string or another primitive value.
  \<^item> The callbacks of the host (the console, the notification of
    \<open>window.modernSearch\<close>) change no store; the only effect of theirs that the model
    keeps is whether the notification throws.
\<close>

subsection \<open>Strings\<close>

definition toLowerChar :: "char \<Rightarrow> char" where
  "toLowerChar c =
     (let n = (of_char c :: nat)
      in if (65 \<le> n \<and> n \<le> 90) \<or> (192 \<le> n \<and> n \<le> 222 \<and> n \<noteq> 215)
         then char_of (n + 32) else c)"

definition toLowerCase :: "string \<Rightarrow> string" where
  "toLowerCase s = map toLowerChar s"

text \<open>\<open>startsWith t w\<close>: the string \<open>t\<close> begins with \<open>w\<close>.\<close>

fun startsWith :: "string \<Rightarrow> string \<Rightarrow> bool" where
  "startsWith t [] = True"
| "startsWith [] (c # w) = False"
| "startsWith (a # t) (c # w) = (a = c \<and> startsWith t w)"

text \<open>\<open>str_includes t w\<close> is \<open>t.includes(w)\<close>: \<open>w\<close> is a contiguous substring of \<open>t\<close>.\<close>

fun str_includes :: "string \<Rightarrow> string \<Rightarrow> bool" where
  "str_includes [] w = (w = [])"
| "str_includes (a # t) w = (startsWith (a # t) w \<or> str_includes t w)"

text \<open>\<open>join_space xs\<close> is \<open>xs.join(' ')\<close>.\<close>

fun join_space :: "string list \<Rightarrow> string" where
  "join_space [] = []"
| "join_space [x] = x"
| "join_space (x # y # ys) = x @ '' '' @ join_space (y # ys)"

definition is_space :: "char \<Rightarrow> bool" where
  "is_space c = ((of_char c :: nat) \<in> {9, 10, 11, 12, 13, 32, 160})"

text \<open>
  \<open>split_space s\<close> is \<open>s.split(/\s+/)\<close>: the pieces between the maximal runs of white
  space; a leading or trailing run gives an empty first or last piece, and the empty
  string gives one empty piece. \<open>cur\<close> is the piece being read, reversed; \<open>sep\<close> says that
  the last character read was white space.
\<close>

fun split_from :: "string \<Rightarrow> bool \<Rightarrow> string \<Rightarrow> string list" where
  "split_from cur sep [] = [rev cur]"
| "split_from cur sep (c # cs) =
     (if is_space c then (if sep then split_from cur True cs else rev cur # split_from [] True cs)
      else split_from (c # cur) False cs)"

definition split_space :: "string \<Rightarrow> string list" where
  "split_space s = split_from [] False s"

subsection \<open>Primitive values and doubles\<close>

text \<open>
  The values that a text can be: a string, a number (an integer here, of a magnitude that
  prints without an exponent), a boolean, \<open>null\<close> or \<open>undefined\<close>. Equality of two
  values is \<open>===\<close>. A plain object or an array handed to \<open>setItem\<close> is not in the
  model; like a number, it has no method \<open>split\<close>.
\<close>

datatype js_value = JsString string | JsNumber int | JsBoolean bool | JsNull | JsUndefined

fun show_nat :: "nat \<Rightarrow> string" where
  "show_nat n =
     (if n < 10 then [char_of (48 + n)] else show_nat (n div 10) @ [char_of (48 + n mod 10)])"

declare show_nat.simps [simp del]

text \<open>\<open>to_string v\<close> is the string that \<open>v + ' '\<close> starts with: the conversion of \<open>v\<close> to a string.\<close>

fun to_string :: "js_value \<Rightarrow> string" where
  "to_string (JsString t) = t"
| "to_string (JsNumber n) = (if n < 0 then ''-'' @ show_nat (nat (- n)) else show_nat (nat n))"
| "to_string (JsBoolean b) = (if b then ''true'' else ''false'')"
| "to_string JsNull = ''null''"
| "to_string JsUndefined = ''undefined''"

text \<open>
  \<open>join_element v\<close> is what \<open>join\<close> makes of an element of the array: the empty string
  for \<open>null\<close> and \<open>undefined\<close>, the conversion to a string otherwise.
\<close>

fun join_element :: "js_value \<Rightarrow> string" where
  "join_element JsNull = []"
| "join_element JsUndefined = []"
| "join_element v = to_string v"

text \<open>
  \<open>to_double x\<close> is the double nearest to \<open>x\<close>, ties going to the even significand, for
  \<open>x\<close> in the range of the normal doubles: \<open>binary_exponent x\<close> is the \<open>e\<close> with
  \<open>2 ^ e \<le> x < 2 ^ (e + 1)\<close>, and the doubles of that binade are the multiples of
  \<open>2 ^ (e - 52)\<close>. \<open>double_add\<close> is the addition of two doubles.
\<close>

fun bit_length :: "nat \<Rightarrow> nat" where
  "bit_length n = (if n = 0 then 0 else Suc (bit_length (n div 2)))"

declare bit_length.simps [simp del]

definition binary_exponent :: "rat \<Rightarrow> int" where
  "binary_exponent x =
     (if 1 \<le> x then int (bit_length (nat \<lfloor>x\<rfloor>)) - 1
      else - int (bit_length (nat \<lceil>1 / x\<rceil> - 1)))"

definition round_half_even :: "rat \<Rightarrow> int" where
  "round_half_even x =
     (let f = \<lfloor>x\<rfloor>; d = x - of_int f
      in if d < 1 / 2 then f else if 1 / 2 < d then f + 1 else if even f then f else f + 1)"

definition to_double :: "rat \<Rightarrow> rat" where
  "to_double x =
     (if x = 0 then 0
      else let u = 2 powi (binary_exponent \<bar>x\<bar> - 52)
           in sgn x * of_int (round_half_even (\<bar>x\<bar> / u)) * u)"

definition double_add :: "rat \<Rightarrow> rat \<Rightarrow> rat" where
  "double_add a b = to_double (a + b)"

subsection \<open>Data model\<close>

datatype js_error = SyntaxError | TypeError | HostError

datatype js_number = Finite rat | NaN | Infinity

text \<open>\<open>js_div a b\<close> is \<open>a / b\<close> on two counts: \<open>0 / 0\<close> is NaN and \<open>a / 0\<close> is infinite.\<close>

definition js_div :: "nat \<Rightarrow> nat \<Rightarrow> js_number" where
  "js_div a b = (if b = 0 then (if a = 0 then NaN else Infinity) else Finite (of_nat a / of_nat b))"

datatype mvalue = Str string | Count nat | Score rat

text \<open>
  An object used as a dictionary (a metadata bag, a table of counts) is an association
  list in the order in which its keys were first assigned; \<open>obj[k]\<close> is \<open>map_of obj k\<close>
  and \<open>obj[k] = v\<close> is \<open>AList.update k v obj\<close>. \<open>object_spread a b\<close> is \<open>{...a, ...b}\<close>:
  the keys of \<open>b\<close> are assigned, in their order, on a copy of \<open>a\<close>.
\<close>

type_synonym metadata = "(string \<times> mvalue) list"

definition object_spread :: "('k \<times> 'v) list \<Rightarrow> ('k \<times> 'v) list \<Rightarrow> ('k \<times> 'v) list" where
  "object_spread a b = foldl (\<lambda>m (k, v). AList.update k v m) a b"

record relationship =
  rel_type :: string
  target :: string

record classification =
  category :: string
  priority :: string
  tags :: "string list"
  confidence :: rat

text \<open>
  A content object. \<open>classification\<close> and \<open>searchableText\<close> are absent (\<open>None\<close>) on the
  object that a capture builds; \<open>indexContent\<close> attaches them.
\<close>

record content =
  id' :: string
  type' :: string
  title :: string
  description :: string
  text' :: js_value
  metadata :: metadata
  relationships :: "relationship list"
  timestamp :: int
  source :: string
  classification :: "classification option"
  searchableText :: "string option"

record search_entry =
  entry_id :: string
  entry_title :: string
  entry_description :: string
  entry_text :: js_value
  entry_category :: string
  entry_priority :: string
  entry_tags :: "string list"
  entry_searchableText :: string
  entry_timestamp :: int

record indexing_status =
  totalContent :: nat
  indexedContent :: nat
  pendingContent :: nat
  failedContent :: nat
  lastIndexed :: "int option"

type_synonym ('k, 'v) js_map = "('k \<times> 'v) list"

record engine =
  contentIndex :: "(string, content) js_map"
  metadataStore :: "(string, metadata) js_map"
  relationshipGraph :: "(string, relationship list) js_map"
  contentCache :: "(string, search_entry) js_map"
  indexingStatus :: indexing_status

text \<open>The state the constructor leaves, before any content is discovered.\<close>

definition new_engine :: engine where
  "new_engine =
     \<lparr>contentIndex = [], metadataStore = [], relationshipGraph = [], contentCache = [],
      indexingStatus = \<lparr>totalContent = 0, indexedContent = 0, pendingContent = 0,
        failedContent = 0, lastIndexed = None\<rparr>\<rparr>"

subsection \<open>Duplicate detection and classification\<close>

definition isDuplicate :: "engine \<Rightarrow> content \<Rightarrow> bool" where
  "isDuplicate s contentData =
     list_ex (\<lambda>(i, existingContent).
        text' existingContent = text' contentData \<and> source existingContent = source contentData)
       (contentIndex s)"

definition commonTags :: "string list" where
  "commonTags = [''dashboard'', ''service'', ''metric'', ''user'', ''system'', ''error'',
     ''status'', ''health'', ''performance'']"

text \<open>
  The five rules run one after the other on the same object, each overwriting category,
  priority and confidence when its condition holds.
\<close>

definition classifyContent :: "content \<Rightarrow> classification" where
  "classifyContent contentData =
     (let c0 = \<lparr>category = ''unknown'', priority = ''low'', tags = [], confidence = 5 / 10\<rparr>;
          t = toLowerCase (to_string (text' contentData) @ '' '' @ title contentData);
          c1 = (if str_includes t ''dashboard'' \<or> type' contentData = ''dashboard''
                then c0\<lparr>category := ''dashboard'', priority := ''high'', confidence := 9 / 10\<rparr>
                else c0);
          c2 = (if str_includes t ''service'' \<or> type' contentData = ''service''
                then c1\<lparr>category := ''service'', priority := ''high'', confidence := 8 / 10\<rparr>
                else c1);
          c3 = (if str_includes t ''metric'' \<or> str_includes t ''performance''
                     \<or> type' contentData = ''metric''
                then c2\<lparr>category := ''metric'', priority := ''medium'', confidence := 8 / 10\<rparr>
                else c2);
          c4 = (if str_includes t ''user'' \<or> str_includes t ''profile'' \<or> type' contentData = ''user''
                then c3\<lparr>category := ''user'', priority := ''medium'', confidence := 7 / 10\<rparr>
                else c3);
          c5 = (if str_includes t ''system'' \<or> str_includes t ''config''
                     \<or> type' contentData = ''system''
                then c4\<lparr>category := ''system'', priority := ''high'', confidence := 8 / 10\<rparr>
                else c4)
      in c5\<lparr>tags := filter (\<lambda>tag. str_includes t tag) commonTags\<rparr>)"

subsection \<open>Enrichment\<close>

definition englishWords :: "string list" where
  "englishWords = [''the'', ''and'', ''is'', ''are'', ''for'', ''with'', ''this'', ''that'']"

definition detectLanguage :: "string \<Rightarrow> string" where
  "detectLanguage t =
     (let englishWordCount = length (filter (\<lambda>word. str_includes (toLowerCase t) word) englishWords)
      in if (of_nat englishWordCount :: rat) / of_nat (length englishWords) > 3 / 10
         then ''english'' else ''unknown'')"

text \<open>
  \<open>long_text v n\<close> is \<open>v && v.length > n\<close>: a value that is not a string has no length,
  and the comparison of \<open>undefined\<close> with a number is false.
\<close>

definition long_text :: "js_value \<Rightarrow> nat \<Rightarrow> bool" where
  "long_text v n = (case v of JsString t \<Rightarrow> t \<noteq> [] \<and> length t > n | _ \<Rightarrow> False)"

definition calculateQualityScore :: "content \<Rightarrow> rat" where
  "calculateQualityScore contentData =
     (let score0 = to_double (5 / 10);
          score1 = (if title contentData \<noteq> [] \<and> length (title contentData) > 5
                    then double_add score0 (to_double (2 / 10)) else score0);
          score2 = (if description contentData \<noteq> [] \<and> length (description contentData) > 10
                    then double_add score1 (to_double (2 / 10)) else score1);
          score3 = (if long_text (text' contentData) 20
                    then double_add score2 (to_double (1 / 10)) else score2)
      in min score3 (to_double 1))"

text \<open>
  \<open>calculateUpdateFrequency\<close> reads the record that the primary index holds under
  \<open>contentId\<close>; \<open>now\<close> is the reading of \<open>Date.now()\<close>, taken only when there is one.
\<close>

definition calculateUpdateFrequency :: "int \<Rightarrow> engine \<Rightarrow> string \<Rightarrow> string" where
  "calculateUpdateFrequency now s contentId =
     (case map_of (contentIndex s) contentId of
        None \<Rightarrow> ''unknown''
      | Some content \<Rightarrow>
          (let age = now - timestamp content;
               hours = (of_int age :: rat) / (1000 * 60 * 60)
           in if hours < 1 then ''high'' else if hours < 24 then ''medium'' else ''low''))"

text \<open>
  The readings of the environment during one call of \<open>indexContent\<close>: the clock read by
  \<open>calculateUpdateFrequency\<close>, the clock read by \<open>updateIndexingStatus\<close>, and whether the
  notification of the host's search system (\<open>window.modernSearch\<close>, when there is one)
  returns normally.
\<close>

record env =
  now_enrich :: int
  now_status :: int
  notify_ok :: bool

text \<open>
  \<open>enrichMetadata\<close> reads \<open>text.length\<close> and calls \<open>text.split\<close> first. On \<open>null\<close> and
  \<open>undefined\<close> the read of \<open>length\<close> throws a TypeError; a number and a boolean have no
  method \<open>split\<close>, and the call throws a TypeError. Nothing else has happened by then.
  \<open>enriched_fields\<close> is the object that the function builds when the text is the
  string \<open>t\<close>.
\<close>

definition enriched_fields :: "env \<Rightarrow> engine \<Rightarrow> content \<Rightarrow> string \<Rightarrow> metadata" where
  "enriched_fields e s contentData t =
     [(''contentLength'', Count (length t)),
      (''wordCount'', Count (length (split_space t))),
      (''language'', Str (detectLanguage t)),
      (''qualityScore'', Score (calculateQualityScore contentData)),
      (''updateFrequency'',
        Str (calculateUpdateFrequency (now_enrich e) s (id' contentData)))]"

definition enrichMetadata :: "env \<Rightarrow> engine \<Rightarrow> content \<Rightarrow> js_error + metadata" where
  "enrichMetadata e s contentData =
     (case text' contentData of
        JsString t \<Rightarrow> Inr (enriched_fields e s contentData t)
      | JsNumber n \<Rightarrow> Inl TypeError
      | JsBoolean b \<Rightarrow> Inl TypeError
      | JsNull \<Rightarrow> Inl TypeError
      | JsUndefined \<Rightarrow> Inl TypeError)"

subsection \<open>The stores\<close>

text \<open>One pass of the \<open>forEach\<close> of \<open>updateRelationshipGraph\<close>.\<close>

definition add_relationship ::
  "string \<Rightarrow> (string, relationship list) js_map \<Rightarrow> relationship
    \<Rightarrow> (string, relationship list) js_map" where
  "add_relationship i g r =
     (let g' = (if map_of g i = None then AList.update i [] g else g)
      in AList.map_entry i (\<lambda>rs. rs @ [r]) g')"

definition updateRelationshipGraph :: "engine \<Rightarrow> content \<Rightarrow> engine" where
  "updateRelationshipGraph s contentData =
     s\<lparr>relationshipGraph :=
         foldl (add_relationship (id' contentData)) (relationshipGraph s)
           (relationships contentData)\<rparr>"

definition updateIndexingStatus :: "int \<Rightarrow> string \<Rightarrow> engine \<Rightarrow> engine" where
  "updateIndexingStatus now status s =
     (let st = indexingStatus s;
          st' = (if status = ''indexed''
                 then st\<lparr>indexedContent := indexedContent st + 1, lastIndexed := Some now\<rparr>
                 else if status = ''failed'' then st\<lparr>failedContent := failedContent st + 1\<rparr>
                 else if status = ''pending'' then st\<lparr>pendingContent := pendingContent st + 1\<rparr>
                 else st)
      in s\<lparr>indexingStatus := st'\<lparr>totalContent := length (contentIndex s)\<rparr>\<rparr>)"

text \<open>
  \<open>updateSearchIndex\<close> stores the entry, then notifies the host; the second component is
  the exception that the notification throws, if any.
\<close>

definition updateSearchIndex :: "env \<Rightarrow> engine \<Rightarrow> search_entry \<Rightarrow> engine \<times> js_error option" where
  "updateSearchIndex e s searchEntry =
     (s\<lparr>contentCache := AList.update (entry_id searchEntry) searchEntry (contentCache s)\<rparr>,
      if notify_ok e then None else Some HostError)"

text \<open>
  \<open>optimizeForSearch\<close> assigns \<open>searchableText\<close> on the content object and stores its
  projection. It returns the object as it is afterwards, the state, and the exception
  thrown, if any: reading the tags of an object with no classification is a TypeError.
\<close>

definition optimizeForSearch ::
  "env \<Rightarrow> engine \<Rightarrow> content \<Rightarrow> content \<times> engine \<times> js_error option" where
  "optimizeForSearch e s contentData =
     (case classification contentData of
        None \<Rightarrow> (contentData, s, Some TypeError)
      | Some cl \<Rightarrow>
          (let st = toLowerCase (join_space
                 ([title contentData, description contentData,
                   join_element (text' contentData)] @ tags cl));
               contentData' = contentData\<lparr>searchableText := Some st\<rparr>;
               searchEntry = \<lparr>entry_id = id' contentData', entry_title = title contentData',
                 entry_description = description contentData', entry_text = text' contentData',
                 entry_category = category cl, entry_priority = priority cl,
                 entry_tags = tags cl, entry_searchableText = st,
                 entry_timestamp = timestamp contentData'\<rparr>;
               (s', err) = updateSearchIndex e s searchEntry
           in (contentData', s', err)))"

text \<open>
  \<open>indexContent\<close>. The object handed in is the object that the primary index holds once
  it is stored, so the \<open>searchableText\<close> that \<open>optimizeForSearch\<close> assigns afterwards
  shows in the index: the model writes the object back under its id. An exception inside
  the \<open>try\<close> block leaves the stores as they are at that moment and counts one failure:
  when \<open>enrichMetadata\<close> throws, nothing has been stored yet.
\<close>

definition indexContent :: "env \<Rightarrow> engine \<Rightarrow> content \<Rightarrow> engine" where
  "indexContent e s contentData =
     (if isDuplicate s contentData then s
      else
        let cd1 = contentData\<lparr>classification := Some (classifyContent contentData)\<rparr>
        in (case enrichMetadata e s cd1 of
              Inl thrown \<Rightarrow> updateIndexingStatus (now_status e) ''failed'' s
            | Inr enrichedMetadata \<Rightarrow>
                (let cd2 = cd1\<lparr>metadata := object_spread (metadata cd1) enrichedMetadata\<rparr>;
                     s1 = s\<lparr>contentIndex := AList.update (id' cd2) cd2 (contentIndex s)\<rparr>;
                     s2 = s1\<lparr>metadataStore :=
                            AList.update (id' cd2) (metadata cd2) (metadataStore s1)\<rparr>;
                     s3 = updateRelationshipGraph s2 cd2;
                     s4 = updateIndexingStatus (now_status e) ''indexed'' s3;
                     (cd3, s5, err) = optimizeForSearch e s4 cd2;
                     s6 = s5\<lparr>contentIndex := AList.update (id' cd2) cd3 (contentIndex s5)\<rparr>
                 in (case err of None \<Rightarrow> s6
                     | Some x \<Rightarrow> updateIndexingStatus (now_status e) ''failed'' s6))))"

text \<open>
  \<open>cleanupOldContent\<close> walks the entries of the primary index and deletes every expired
  id from three stores. Deleting the entry under the cursor of a \<open>Map\<close> iteration does
  not disturb the walk, so the loop visits the entries the index had at the start.
\<close>

definition maxAge :: int where
  "maxAge = 24 * 60 * 60 * 1000"

definition cleanup_step :: "int \<Rightarrow> engine \<Rightarrow> string \<times> content \<Rightarrow> engine" where
  "cleanup_step now s entry =
     (case entry of (contentId, contentData) \<Rightarrow>
        if now - timestamp contentData > maxAge
        then s\<lparr>contentIndex := AList.delete contentId (contentIndex s),
               metadataStore := AList.delete contentId (metadataStore s),
               contentCache := AList.delete contentId (contentCache s)\<rparr>
        else s)"

definition cleanupOldContent :: "int \<Rightarrow> engine \<Rightarrow> engine" where
  "cleanupOldContent now s = foldl (cleanup_step now) s (contentIndex s)"

definition updateContentRelationships :: "engine \<Rightarrow> engine" where
  "updateContentRelationships s =
     foldl (\<lambda>s' (contentId, contentData). updateRelationshipGraph s' contentData) s
       (contentIndex s)"

text \<open>
  \<open>performFullContentDiscovery\<close>: the status is reset, every element of the page is
  handed to \<open>indexContent\<close> (\<open>page\<close> lists the objects extracted from the page, each with
  the readings of its call), and the relationships of every indexed record are added to
  the graph again. Discovery of external content is a placeholder that does nothing.
\<close>

definition resetIndexingStatus :: "int \<Rightarrow> engine \<Rightarrow> engine" where
  "resetIndexingStatus now s =
     s\<lparr>indexingStatus := \<lparr>totalContent = 0, indexedContent = 0, pendingContent = 0,
        failedContent = 0, lastIndexed = Some now\<rparr>\<rparr>"

definition discoverPageContent :: "(env \<times> content) list \<Rightarrow> engine \<Rightarrow> engine" where
  "discoverPageContent page s = foldl (\<lambda>s' (e, c). indexContent e s' c) s page"

definition performFullContentDiscovery :: "int \<Rightarrow> (env \<times> content) list \<Rightarrow> engine \<Rightarrow> engine" where
  "performFullContentDiscovery now page s =
     updateContentRelationships (discoverPageContent page (resetIndexingStatus now s))"

text \<open>\<open>refreshContentIndex\<close>: the marked elements are indexed again, then eviction runs.\<close>

definition refreshContentIndex :: "int \<Rightarrow> (env \<times> content) list \<Rightarrow> engine \<Rightarrow> engine" where
  "refreshContentIndex now page s = cleanupOldContent now (discoverPageContent page s)"

subsection \<open>Relationship statistics\<close>

record relationship_stats =
  totalRelationships :: nat
  relationshipTypes :: "(string \<times> nat) list"
  averageRelationshipsPerContent :: js_number

definition count_type :: "(string \<times> nat) list \<Rightarrow> relationship \<Rightarrow> (string \<times> nat) list" where
  "count_type m rel =
     AList.update (rel_type rel)
       ((case map_of m (rel_type rel) of None \<Rightarrow> 0 | Some n \<Rightarrow> n) + 1) m"

definition getRelationshipStats :: "engine \<Rightarrow> relationship_stats" where
  "getRelationshipStats s =
     (let total = foldl (\<lambda>n (contentId, rels). n + length rels) 0 (relationshipGraph s);
          types = foldl (\<lambda>m (contentId, rels). foldl count_type m rels) []
                    (relationshipGraph s)
      in \<lparr>totalRelationships = total, relationshipTypes = types,
          averageRelationshipsPerContent = js_div total (length (contentIndex s))\<rparr>)"

subsection \<open>Search\<close>

text \<open>
  The syntax characters of the pattern language of regular expressions; \<open>CHR 0x5C\<close> is
  the backslash.
\<close>

definition syntax_chars :: "char list" where
  "syntax_chars = ''^$.*+?()[]{}|'' @ [CHR 0x5C]"

definition is_syntax_char :: "char \<Rightarrow> bool" where
  "is_syntax_char c = (c \<in> set syntax_chars)"

text \<open>
  \<open>literal_match_count w t\<close>: the number of matches that a global, case-insensitive
  search for the literal pattern \<open>w\<close> finds in \<open>t\<close>. The search goes on after the end of
  each match, and one position further after an empty match, so the empty pattern
  matches once at every position, the end included.
\<close>

function literal_match_count :: "string \<Rightarrow> string \<Rightarrow> nat" where
  "literal_match_count w t =
     (if startsWith (toLowerCase t) (toLowerCase w)
      then (if w = [] then (case t of [] \<Rightarrow> 1 | a # t' \<Rightarrow> 1 + literal_match_count w t')
            else 1 + literal_match_count w (drop (length w) t))
      else (case t of [] \<Rightarrow> 0 | a # t' \<Rightarrow> literal_match_count w t'))"
  by pat_completeness auto
termination
proof (relation "measure (\<lambda>(w, t). length t)")
  show "wf (measure (\<lambda>(w, t). length t))" by simp
next
  fix w t :: string and a t'
  assume "t = a # t'"
  then show "((w, t'), (w, t)) \<in> measure (\<lambda>(w, t). length t)" by simp
next
  fix w t :: string
  assume "startsWith (toLowerCase t) (toLowerCase w)" and "w \<noteq> []"
  then have "t \<noteq> []" by (cases w; cases t) (simp_all add: toLowerCase_def)
  with \<open>w \<noteq> []\<close> show "((w, drop (length w) t), (w, t)) \<in> measure (\<lambda>(w, t). length t)"
    by simp
next
  fix w t :: string and a t'
  assume "t = a # t'"
  then show "((w, t'), (w, t)) \<in> measure (\<lambda>(w, t). length t)" by simp
qed

declare literal_match_count.simps [simp del]

text \<open>
  A pattern with no backslash and no bracket in which the opening and the closing
  parentheses differ in number has a group that is not closed or a closing parenthesis
  that closes nothing: it is not a pattern of the grammar.
\<close>

definition unpaired_parentheses :: "string \<Rightarrow> bool" where
  "unpaired_parentheses w =
     (CHR 0x5C \<notin> set w \<and> CHR ''['' \<notin> set w
      \<and> count_list w CHR ''('' \<noteq> count_list w CHR '')'')"

text \<open>
  \<open>regexp_match_count rx word t\<close> is the step of \<open>calculateRelevance\<close> on one word:
  \<open>new RegExp(word, 'gi')\<close>, then the number of elements of \<open>t.match(regex)\<close>, none when the
  result is \<open>null\<close>. The constructor throws a SyntaxError on a word that is not a pattern.
  A word with no syntax character is a pattern that matches itself. The regular
  expression engine is the platform's: what it does on a word with syntax characters,
  other than rejecting unpaired parentheses, is the parameter \<open>rx\<close>.
\<close>

definition regexp_match_count ::
  "(string \<Rightarrow> string \<Rightarrow> js_error + nat) \<Rightarrow> string \<Rightarrow> string \<Rightarrow> js_error + nat" where
  "regexp_match_count rx word t =
     (if \<not> list_ex is_syntax_char word then Inr (literal_match_count word t)
      else if unpaired_parentheses word then Inl SyntaxError
      else rx word t)"

text \<open>The \<open>forEach\<close> of \<open>calculateRelevance\<close>: an exception ends it at once.\<close>

fun add_scores ::
  "(string \<Rightarrow> string \<Rightarrow> js_error + nat) \<Rightarrow> string \<Rightarrow> nat \<Rightarrow> string list \<Rightarrow> js_error + nat" where
  "add_scores rx t score [] = Inr score"
| "add_scores rx t score (word # queryWords) =
     (case regexp_match_count rx word t of
        Inl err \<Rightarrow> Inl err
      | Inr n \<Rightarrow> add_scores rx t (score + n) queryWords)"

definition calculateRelevance ::
  "(string \<Rightarrow> string \<Rightarrow> js_error + nat) \<Rightarrow> string \<Rightarrow> string \<Rightarrow> js_error + nat" where
  "calculateRelevance rx query t = add_scores rx t 0 (split_space query)"

text \<open>
  The filters of a search. A filter that is absent, or the empty string, is falsy and
  constrains nothing.
\<close>

record filters =
  filter_category :: "string option"
  filter_priority :: "string option"
  filter_type :: "string option"

definition no_filters :: filters where
  "no_filters = \<lparr>filter_category = None, filter_priority = None, filter_type = None\<rparr>"

definition supplied :: "string option \<Rightarrow> bool" where
  "supplied f = (case f of None \<Rightarrow> False | Some v \<Rightarrow> v \<noteq> [])"

text \<open>\<open>passes_filters\<close>: none of the three \<open>continue\<close> statements of the loop is taken.\<close>

definition passes_filters :: "filters \<Rightarrow> content \<Rightarrow> bool" where
  "passes_filters f content =
     (\<not> (supplied (filter_category f)
          \<and> map_option category (classification content) \<noteq> filter_category f)
      \<and> \<not> (supplied (filter_priority f)
          \<and> map_option priority (classification content) \<noteq> filter_priority f)
      \<and> \<not> (supplied (filter_type f) \<and> Some (type' content) \<noteq> filter_type f))"

definition searchable :: "content \<Rightarrow> string" where
  "searchable content = (case searchableText content of None \<Rightarrow> [] | Some t \<Rightarrow> t)"

text \<open>A result of a search: the fields of the record and its relevance.\<close>

record search_result = content +
  relevance :: nat

definition with_relevance :: "content \<Rightarrow> nat \<Rightarrow> search_result" where
  "with_relevance content r = content.extend content (search_result.fields r)"

text \<open>The loop of \<open>searchContent\<close> over the entries of the primary index.\<close>

fun collect_results ::
  "(string \<Rightarrow> string \<Rightarrow> js_error + nat) \<Rightarrow> string \<Rightarrow> filters \<Rightarrow> (string \<times> content) list
    \<Rightarrow> js_error + search_result list" where
  "collect_results rx queryLower f [] = Inr []"
| "collect_results rx queryLower f ((i, content) # entries) =
     (if \<not> passes_filters f content then collect_results rx queryLower f entries
      else if str_includes (searchable content) queryLower
      then (case calculateRelevance rx queryLower (searchable content) of
              Inl err \<Rightarrow> Inl err
            | Inr r \<Rightarrow>
                (case collect_results rx queryLower f entries of
                   Inl err \<Rightarrow> Inl err
                 | Inr results \<Rightarrow> Inr (with_relevance content r # results)))
      else collect_results rx queryLower f entries)"

text \<open>
  \<open>searchContent\<close>: the results in the order of the index, then sorted by the comparator
  \<open>b.relevance - a.relevance\<close>; the sort of the platform is stable.
\<close>

definition searchContent ::
  "(string \<Rightarrow> string \<Rightarrow> js_error + nat) \<Rightarrow> engine \<Rightarrow> string \<Rightarrow> filters
    \<Rightarrow> js_error + search_result list" where
  "searchContent rx s query f =
     (case collect_results rx (toLowerCase query) f (contentIndex s) of
        Inl err \<Rightarrow> Inl err
      | Inr results \<Rightarrow> Inr (sort_key (\<lambda>r. - int (relevance r)) results))"

subsection \<open>Histories and example inputs\<close>

text \<open>
  The operations that change the stores after construction, and the state that a sequence
  of them leaves when it starts from the constructor's state.
\<close>

datatype operation =
    IndexContent env content
  | CleanupOldContent int
  | RefreshContentIndex int "(env \<times> content) list"
  | PerformFullContentDiscovery int "(env \<times> content) list"

fun apply_operation :: "engine \<Rightarrow> operation \<Rightarrow> engine" where
  "apply_operation s (IndexContent e c) = indexContent e s c"
| "apply_operation s (CleanupOldContent now) = cleanupOldContent now s"
| "apply_operation s (RefreshContentIndex now page) = refreshContentIndex now page s"
| "apply_operation s (PerformFullContentDiscovery now page) =
     performFullContentDiscovery now page s"

definition run :: "operation list \<Rightarrow> engine" where
  "run ops = foldl apply_operation new_engine ops"



definition at_time :: "int \<Rightarrow> env" where
  "at_time now = \<lparr>now_enrich = now, now_status = now, notify_ok = True\<rparr>"

definition health_record :: content where
  "health_record =
     \<lparr>id' = ''div_card_1_status'', type' = ''text'', title = '''', description = '''',
      text' = JsString ''Dashboard system health metric'', metadata = [], relationships = [],
      timestamp = 1000, source = ''dom'', classification = None, searchableText = None\<rparr>"

definition formula_record :: content where
  "formula_record =
     \<lparr>id' = ''code_snippet__f_x_'', type' = ''code'', title = ''snippet'', description = '''',
      text' = JsString ''f(x)'', metadata = [(''className'', Str ''snippet'')],
      relationships = [\<lparr>rel_type = ''parent'', target = ''body___''\<rparr>],
      timestamp = 1000, source = ''dom'', classification = None, searchableText = None\<rparr>"

text \<open>
  Agreement of the three stores that eviction touches: the search projection and the
  metadata store hold the ids of the primary index, in the same order.
\<close>

definition stores_agree :: "engine \<Rightarrow> bool" where
  "stores_agree s =
     (map fst (contentCache s) = map fst (contentIndex s)
      \<and> map fst (metadataStore s) = map fst (contentIndex s))"

text \<open>
  Example histories. In \<open>two_captures\<close> the second record is captured a day after the
  first; in \<open>new_version\<close> an element that is already indexed is captured again, half an
  hour later and with a new text.
\<close>

definition late_record :: content where
  "late_record = health_record\<lparr>timestamp := 86400000\<rparr>"

definition two_captures :: "operation list" where
  "two_captures =
     [IndexContent (at_time 1000) formula_record, IndexContent (at_time 86400000) late_record]"



section \<open>Properties\<close>

lemma str_includes_iff: "str_includes t w \<longleftrightarrow> (\<exists>p r. t = p @ w @ r)"
proof (induction t)
  case Nil
  then show ?case by auto
next
  case (Cons a t)
  have sw: "startsWith u w \<longleftrightarrow> (\<exists>r. u = w @ r)" for u
    by (induction u w rule: startsWith.induct) auto
  show ?case
  proof
    assume "str_includes (a # t) w"
    then consider "startsWith (a # t) w" | "str_includes t w" by auto
    then show "\<exists>p r. a # t = p @ w @ r"
    proof cases
      case 1
      then obtain r where "a # t = w @ r" using sw by blast
      then have "a # t = [] @ w @ r" by simp
      then show ?thesis by blast
    next
      case 2
      then obtain p r where "t = p @ w @ r" using Cons.IH by blast
      then have "a # t = (a # p) @ w @ r" by simp
      then show ?thesis by blast
    qed
  next
    assume "\<exists>p r. a # t = p @ w @ r"
    then obtain p r where e: "a # t = p @ w @ r" by blast
    show "str_includes (a # t) w"
    proof (cases p)
      case Nil
      then have "startsWith (a # t) w" using e sw by auto
      then show ?thesis by simp
    next
      case (Cons b q)
      then have "t = q @ w @ r" using e by simp
      then have "str_includes t w" using Cons.IH by blast
      then show ?thesis by simp
    qed
  qed
qed

text \<open>
  C3. A record whose lower-cased text and title, joined by a space, contain both the
  keyword "dashboard" and the keyword "system" is classified in category "system": the
  system rule is the last of the ordered rules and overwrites what the dashboard rule set.
  The text enters the combined string as the concatenation converts it, whatever value
  it is.
\<close>

theorem classify_dashboard_system:
  assumes "str_includes (toLowerCase (to_string (text' c) @ '' '' @ title c)) ''dashboard''"
    and "str_includes (toLowerCase (to_string (text' c) @ '' '' @ title c)) ''system''"
  shows "category (classifyContent c) = ''system''"
  using assms by (simp add: classifyContent_def Let_def)

theorem classify_dashboard_system_witness:
  "str_includes (toLowerCase (to_string (text' health_record) @ '' '' @ title health_record))
     ''dashboard''
   \<and> str_includes (toLowerCase (to_string (text' health_record) @ '' '' @ title health_record))
     ''system''
   \<and> category (classifyContent health_record) = ''system''"
proof -
  have d: "str_includes
      (toLowerCase (to_string (text' health_record) @ '' '' @ title health_record)) ''dashboard''"
    by code_simp
  have s: "str_includes
      (toLowerCase (to_string (text' health_record) @ '' '' @ title health_record)) ''system''"
    by code_simp
  from classify_dashboard_system [OF d s] d s show ?thesis by simp
qed

subsection \<open>Eviction and the relationship graph\<close>

lemma cleanup_step_graph: "relationshipGraph (cleanup_step now s entry) = relationshipGraph s"
  by (cases entry) (simp add: cleanup_step_def)

lemma foldl_cleanup_graph:
  "relationshipGraph (foldl (cleanup_step now) s entries) = relationshipGraph s"
  by (induction entries arbitrary: s) (simp_all add: cleanup_step_graph)

text \<open>
  C9. \<open>cleanupOldContent\<close> leaves the relationship graph as it is, whatever it evicts: it
  deletes ids from the primary index, the metadata store and the search projection only.
  So an eviction pass can leave in the graph an adjacency entry under an id that the
  primary index held before the pass and holds no longer: it does, on a state that a
  history reaches, when it evicts a record that was indexed with one relationship.
\<close>

theorem cleanup_keeps_graph:
  "relationshipGraph (cleanupOldContent now s) = relationshipGraph s
   \<and> (\<exists>ops now' i. i \<in> fst ` set (contentIndex (run ops))
         \<and> i \<in> fst ` set (relationshipGraph (run ops))
         \<and> i \<notin> fst ` set (contentIndex (cleanupOldContent now' (run ops)))
         \<and> i \<in> fst ` set (relationshipGraph (cleanupOldContent now' (run ops))))"
proof
  show "relationshipGraph (cleanupOldContent now s) = relationshipGraph s"
    by (simp add: cleanupOldContent_def foldl_cleanup_graph)
next
  let ?s = "run [IndexContent (at_time 1000) formula_record]"
  have b: "map fst (contentIndex ?s) = [id' formula_record]"
    by code_simp
  have g: "map fst (relationshipGraph ?s) = [id' formula_record]"
    by code_simp
  have c: "map fst (contentIndex (cleanupOldContent 86401001 ?s)) = []"
    by code_simp
  have g': "relationshipGraph (cleanupOldContent 86401001 ?s) = relationshipGraph ?s"
    by (simp add: cleanupOldContent_def foldl_cleanup_graph)
  have "id' formula_record \<in> set (map fst (contentIndex ?s))"
    unfolding b by simp
  moreover have "id' formula_record \<in> set (map fst (relationshipGraph ?s))"
    unfolding g by simp
  moreover have "id' formula_record \<notin> set (map fst (contentIndex (cleanupOldContent 86401001 ?s)))"
    unfolding c by simp
  ultimately have "id' formula_record \<in> fst ` set (contentIndex ?s)
      \<and> id' formula_record \<in> fst ` set (relationshipGraph ?s)
      \<and> id' formula_record \<notin> fst ` set (contentIndex (cleanupOldContent 86401001 ?s))
      \<and> id' formula_record \<in> fst ` set (relationshipGraph (cleanupOldContent 86401001 ?s))"
    unfolding g' by simp
  then show "\<exists>ops now' i. i \<in> fst ` set (contentIndex (run ops))
         \<and> i \<in> fst ` set (relationshipGraph (run ops))
         \<and> i \<notin> fst ` set (contentIndex (cleanupOldContent now' (run ops)))
         \<and> i \<in> fst ` set (relationshipGraph (cleanupOldContent now' (run ops)))"
    by blast
qed

subsection \<open>Relationship statistics\<close>

text \<open>
  The average divides the number of edges by the number of records of the primary index,
  not by the number of keys of the graph.
\<close>

lemma stats_average:
  "averageRelationshipsPerContent (getRelationshipStats s)
     = js_div (sum_list (map (\<lambda>(i, rels). length rels) (relationshipGraph s)))
         (length (contentIndex s))"
proof -
  have "foldl (\<lambda>n (contentId, rels). n + length rels) a g
          = a + sum_list (map (\<lambda>(i, rels). length rels) g)" for a and g :: "(string \<times> relationship list) list"
    by (induction g arbitrary: a) (auto simp: case_prod_beta)
  from this [of 0] show ?thesis by (simp add: getRelationshipStats_def Let_def)
qed

text \<open>
  C7. The claim asks for an average of 0 when the primary index holds no record. The
  division is not guarded: on the engine as constructed the average is \<open>0 / 0\<close>, which is
  NaN, and after the eviction of the only record, whose edge stays in the graph, it is
  \<open>1 / 0\<close>, which is infinite.
\<close>

theorem stats_average_empty_index:
  "averageRelationshipsPerContent (getRelationshipStats new_engine) = NaN
   \<and> averageRelationshipsPerContent (getRelationshipStats
        (cleanupOldContent 86401001 (indexContent (at_time 1000) new_engine formula_record)))
       = Infinity"
  by code_simp

subsection \<open>Search\<close>

text \<open>
  C8. \<open>calculateRelevance\<close> hands each word of the query to the constructor of regular
  expressions as it is, so the query \<open>(\<close> makes it throw a SyntaxError on every text, and
  there is a state and a query, contained in the searchable text of an indexed record,
  on which \<open>searchContent\<close> throws instead of returning results. This holds for every
  behaviour \<open>rx\<close> of the engine on the patterns that the model leaves open.
\<close>

theorem search_throws_on_parenthesis:
  "calculateRelevance rx ''('' t = Inl SyntaxError
   \<and> (\<exists>s query. list_ex (\<lambda>(i, r). str_includes (searchable r) (toLowerCase query)) (contentIndex s)
         \<and> searchContent rx s query no_filters = Inl SyntaxError)"
proof
  show "calculateRelevance rx ''('' t = Inl SyntaxError"
    by (simp add: calculateRelevance_def split_space_def is_space_def regexp_match_count_def
        is_syntax_char_def syntax_chars_def unpaired_parentheses_def)
next
  let ?s = "indexContent (at_time 1000) new_engine formula_record"
  have 1: "list_ex (\<lambda>(i, r). str_includes (searchable r) (toLowerCase ''('')) (contentIndex ?s)"
    by code_simp
  have 2: "searchContent rx ?s ''('' no_filters = Inl SyntaxError"
    by code_simp
  from 1 2 show "\<exists>s query. list_ex (\<lambda>(i, r). str_includes (searchable r) (toLowerCase query)) (contentIndex s)
         \<and> searchContent rx s query no_filters = Inl SyntaxError"
    by blast
qed

subsection \<open>Indexing\<close>

lemma indexContent_duplicate: "isDuplicate s c \<Longrightarrow> indexContent e s c = s"
  by (simp add: indexContent_def)


lemma enriched_fields_classified:
  "enriched_fields e s (c\<lparr>classification := x\<rparr>) t = enriched_fields e s c t"
  by (simp add: enriched_fields_def calculateQualityScore_def)

lemma enrichMetadata_string:
  "text' c = JsString t \<Longrightarrow>
   enrichMetadata e s (c\<lparr>classification := x\<rparr>) = Inr (enriched_fields e s c t)"
  by (simp add: enrichMetadata_def enriched_fields_classified)

lemma enrichMetadata_other:
  "\<forall>t. text' c \<noteq> JsString t \<Longrightarrow> enrichMetadata e s (c\<lparr>classification := x\<rparr>) = Inl TypeError"
  by (cases "text' c") (simp_all add: enrichMetadata_def)

lemma updateIndexingStatus_stores:
  "contentIndex (updateIndexingStatus now st s) = contentIndex s"
  "metadataStore (updateIndexingStatus now st s) = metadataStore s"
  "relationshipGraph (updateIndexingStatus now st s) = relationshipGraph s"
  "contentCache (updateIndexingStatus now st s) = contentCache s"
  "totalContent (indexingStatus (updateIndexingStatus now st s)) = length (contentIndex s)"
  by (simp_all add: updateIndexingStatus_def Let_def)

lemma updateRelationshipGraph_stores:
  "contentIndex (updateRelationshipGraph s c) = contentIndex s"
  "metadataStore (updateRelationshipGraph s c) = metadataStore s"
  "contentCache (updateRelationshipGraph s c) = contentCache s"
  "indexingStatus (updateRelationshipGraph s c) = indexingStatus s"
  by (simp_all add: updateRelationshipGraph_def)

lemma length_update:
  "length (AList.update k v al) = (if k \<in> fst ` set al then length al else Suc (length al))"
  by (induction al) auto

text \<open>
  A call of \<open>indexContent\<close> on an object that is not a duplicate and whose text is not a
  string stores nothing and counts one failure.
\<close>

lemma indexContent_failed:
  "\<not> isDuplicate s c \<Longrightarrow> \<forall>t. text' c \<noteq> JsString t \<Longrightarrow>
   indexContent e s c = updateIndexingStatus (now_status e) ''failed'' s"
  by (simp add: indexContent_def enrichMetadata_other)

text \<open>The three ways in which a call of \<open>indexContent\<close> ends.\<close>

lemma indexContent_cases:
  obtains (dropped) "isDuplicate s c" and "indexContent e s c = s"
  | (failed) "\<not> isDuplicate s c" and "\<forall>t. text' c \<noteq> JsString t"
      and "indexContent e s c = updateIndexingStatus (now_status e) ''failed'' s"
  | (stored) t where "\<not> isDuplicate s c" and "text' c = JsString t"
proof (cases "isDuplicate s c")
  case True
  then show ?thesis using dropped indexContent_duplicate by blast
next
  case False
  show ?thesis
  proof (cases "\<exists>t. text' c = JsString t")
    case True
    with False show ?thesis using stored by blast
  next
    case False
    with \<open>\<not> isDuplicate s c\<close> show ?thesis using failed indexContent_failed by blast
  qed
qed

text \<open>
  What a call of \<open>indexContent\<close> leaves in the stores when the object is not a duplicate
  and its text is the string \<open>t\<close>.
\<close>

lemma indexContent_contentIndex:
  "\<not> isDuplicate s c \<Longrightarrow> text' c = JsString t \<Longrightarrow>
   contentIndex (indexContent e s c) =
     AList.update (id' c)
       (c\<lparr>classification := Some (classifyContent c),
          metadata := object_spread (metadata c) (enriched_fields e s c t),
          searchableText := Some (toLowerCase (join_space
            ([title c, description c, t] @ tags (classifyContent c))))\<rparr>)
       (contentIndex s)"
  by (cases "notify_ok e")
     (simp_all add: indexContent_def optimizeForSearch_def updateSearchIndex_def Let_def
       enrichMetadata_string updateIndexingStatus_stores updateRelationshipGraph_stores)

lemma indexContent_metadataStore:
  "\<not> isDuplicate s c \<Longrightarrow> text' c = JsString t \<Longrightarrow>
   metadataStore (indexContent e s c) =
     AList.update (id' c) (object_spread (metadata c) (enriched_fields e s c t)) (metadataStore s)"
  by (cases "notify_ok e")
     (simp_all add: indexContent_def optimizeForSearch_def updateSearchIndex_def Let_def
       enrichMetadata_string updateIndexingStatus_stores updateRelationshipGraph_stores)

lemma indexContent_contentCache_keys:
  "\<not> isDuplicate s c \<Longrightarrow> text' c = JsString t \<Longrightarrow>
   map fst (contentCache (indexContent e s c)) =
     (if id' c \<in> set (map fst (contentCache s)) then map fst (contentCache s)
      else map fst (contentCache s) @ [id' c])"
  by (cases "notify_ok e")
     (simp_all add: indexContent_def optimizeForSearch_def updateSearchIndex_def Let_def
       enrichMetadata_string updateIndexingStatus_stores updateRelationshipGraph_stores
       update_keys)

lemma indexContent_totalContent:
  assumes "\<not> isDuplicate s c"
  shows "totalContent (indexingStatus (indexContent e s c))
    = length (contentIndex (indexContent e s c))"
proof (cases rule: indexContent_cases [of s c e])
  case dropped
  with assms show ?thesis by simp
next
  case failed
  then show ?thesis by (simp add: updateIndexingStatus_stores)
next
  case (stored t)
  then show ?thesis
    by (cases "notify_ok e")
       (simp_all add: indexContent_def optimizeForSearch_def updateSearchIndex_def Let_def
         enrichMetadata_string updateIndexingStatus_stores updateRelationshipGraph_stores
         length_update)
qed




subsection \<open>Invariants of every history\<close>

lemma cleanup_step_stores:
  "contentIndex (cleanup_step now s (k, r)) =
     (if now - timestamp r > maxAge then AList.delete k (contentIndex s) else contentIndex s)"
  "metadataStore (cleanup_step now s (k, r)) =
     (if now - timestamp r > maxAge then AList.delete k (metadataStore s) else metadataStore s)"
  "contentCache (cleanup_step now s (k, r)) =
     (if now - timestamp r > maxAge then AList.delete k (contentCache s) else contentCache s)"
  "indexingStatus (cleanup_step now s (k, r)) = indexingStatus s"
  by (simp_all add: cleanup_step_def)

lemma foldl_invariant:
  assumes "P s" and "\<And>s x. P s \<Longrightarrow> P (f s x)"
  shows "P (foldl f s xs)"
  using assms(1) by (induction xs arbitrary: s) (simp_all add: assms(2))

lemma updateContentRelationships_stores:
  "contentIndex (updateContentRelationships s) = contentIndex s
   \<and> metadataStore (updateContentRelationships s) = metadataStore s
   \<and> contentCache (updateContentRelationships s) = contentCache s
   \<and> indexingStatus (updateContentRelationships s) = indexingStatus s"
proof -
  let ?P = "\<lambda>s'. contentIndex s' = contentIndex s \<and> metadataStore s' = metadataStore s
     \<and> contentCache s' = contentCache s \<and> indexingStatus s' = indexingStatus s"
  have "?P (foldl (\<lambda>s' (contentId, contentData). updateRelationshipGraph s' contentData) s xs)"
    for xs
    by (rule foldl_invariant [where P = ?P])
       (auto simp: updateRelationshipGraph_stores)
  then show ?thesis by (simp add: updateContentRelationships_def)
qed

lemma run_invariant:
  assumes new: "P new_engine"
    and index: "\<And>e s c. P s \<Longrightarrow> P (indexContent e s c)"
    and cleanup: "\<And>now s. P s \<Longrightarrow> P (cleanupOldContent now s)"
    and reset: "\<And>now s. P s \<Longrightarrow> P (resetIndexingStatus now s)"
    and relate: "\<And>s. P s \<Longrightarrow> P (updateContentRelationships s)"
  shows "P (run ops)"
proof -
  have page: "P (discoverPageContent page s)" if "P s" for page s
    unfolding discoverPageContent_def using that
    by (rule foldl_invariant) (auto intro: index)
  have step: "P (apply_operation s x)" if "P s" for s x
    using that
    by (cases x)
       (auto simp: refreshContentIndex_def performFullContentDiscovery_def
         intro: index cleanup reset relate page)
  show ?thesis
    unfolding run_def using new by (rule foldl_invariant) (rule step)
qed








lemma stores_agree_indexContent:
  assumes "stores_agree s"
  shows "stores_agree (indexContent e s c)"
proof (cases rule: indexContent_cases [of s c e])
  case dropped
  with assms show ?thesis by simp
next
  case failed
  with assms show ?thesis
    by (simp add: stores_agree_def updateIndexingStatus_stores)
next
  case (stored t)
  with assms show ?thesis
    by (simp add: stores_agree_def indexContent_contentIndex indexContent_metadataStore
        indexContent_contentCache_keys update_keys)
qed

lemma stores_agree_cleanup:
  assumes "stores_agree s"
  shows "stores_agree (cleanupOldContent now s)"
  unfolding cleanupOldContent_def using assms
proof (rule foldl_invariant)
  fix s' :: engine and x
  assume "stores_agree s'"
  then show "stores_agree (cleanup_step now s' x)"
    by (cases x) (simp add: stores_agree_def cleanup_step_stores delete_keys)
qed

lemma stores_agree_run: "stores_agree (run ops)"
proof (rule run_invariant)
  show "stores_agree new_engine"
    by (simp add: stores_agree_def new_engine_def)
qed (simp_all add: stores_agree_indexContent stores_agree_cleanup,
     simp_all add: stores_agree_def resetIndexingStatus_def updateContentRelationships_stores)






subsection \<open>Eviction\<close>

lemma cleanup_absent_stays:
  "i \<notin> fst ` set (contentIndex s) \<Longrightarrow>
     i \<notin> fst ` set (contentIndex (foldl (cleanup_step now) s xs))"
  "i \<notin> fst ` set (metadataStore s) \<Longrightarrow>
     i \<notin> fst ` set (metadataStore (foldl (cleanup_step now) s xs))"
  "i \<notin> fst ` set (contentCache s) \<Longrightarrow>
     i \<notin> fst ` set (contentCache (foldl (cleanup_step now) s xs))"
proof -
  have sub: "i \<notin> fst ` set al \<Longrightarrow> i \<notin> fst ` set (AList.delete k al)"
    for k and al :: "(string \<times> 'a) list"
    using dom_delete_subset [of k al] by blast
  have step:
    "i \<notin> fst ` set (contentIndex s') \<Longrightarrow> i \<notin> fst ` set (contentIndex (cleanup_step now s' x))"
    "i \<notin> fst ` set (metadataStore s') \<Longrightarrow> i \<notin> fst ` set (metadataStore (cleanup_step now s' x))"
    "i \<notin> fst ` set (contentCache s') \<Longrightarrow> i \<notin> fst ` set (contentCache (cleanup_step now s' x))"
    for s' x
    by (cases x; simp add: cleanup_step_stores sub)+
  show "i \<notin> fst ` set (contentIndex s) \<Longrightarrow>
     i \<notin> fst ` set (contentIndex (foldl (cleanup_step now) s xs))"
    by (erule foldl_invariant) (rule step)
  show "i \<notin> fst ` set (metadataStore s) \<Longrightarrow>
     i \<notin> fst ` set (metadataStore (foldl (cleanup_step now) s xs))"
    by (erule foldl_invariant) (rule step)
  show "i \<notin> fst ` set (contentCache s) \<Longrightarrow>
     i \<notin> fst ` set (contentCache (foldl (cleanup_step now) s xs))"
    by (erule foldl_invariant) (rule step)
qed

lemma cleanup_expired_gone:
  assumes "(i, r) \<in> set xs" and "now - timestamp r > maxAge"
  shows "i \<notin> fst ` set (contentIndex (foldl (cleanup_step now) s xs))
     \<and> i \<notin> fst ` set (metadataStore (foldl (cleanup_step now) s xs))
     \<and> i \<notin> fst ` set (contentCache (foldl (cleanup_step now) s xs))"
  using assms(1)
proof (induction xs arbitrary: s)
  case Nil
  then show ?case by simp
next
  case (Cons x xs)
  show ?case
  proof (cases "x = (i, r)")
    case True
    let ?s = "cleanup_step now s (i, r)"
    have "i \<notin> fst ` set (contentIndex ?s)" "i \<notin> fst ` set (metadataStore ?s)"
      "i \<notin> fst ` set (contentCache ?s)"
      using assms(2) by (simp_all add: cleanup_step_stores delete_notin_dom)
    then show ?thesis
      using True by (simp add: cleanup_absent_stays)
  next
    case False
    with Cons.prems have "(i, r) \<in> set xs" by simp
    then show ?thesis by (simp add: Cons.IH)
  qed
qed

lemma cleanup_others_kept:
  assumes "\<forall>r. (i, r) \<in> set xs \<longrightarrow> \<not> now - timestamp r > maxAge"
  shows "map_of (contentIndex (foldl (cleanup_step now) s xs)) i = map_of (contentIndex s) i
     \<and> map_of (metadataStore (foldl (cleanup_step now) s xs)) i = map_of (metadataStore s) i
     \<and> map_of (contentCache (foldl (cleanup_step now) s xs)) i = map_of (contentCache s) i"
  using assms
proof (induction xs arbitrary: s)
  case Nil
  then show ?case by simp
next
  case (Cons x xs)
  obtain k r where x: "x = (k, r)" by (cases x)
  have step: "map_of (contentIndex (cleanup_step now s x)) i = map_of (contentIndex s) i
     \<and> map_of (metadataStore (cleanup_step now s x)) i = map_of (metadataStore s) i
     \<and> map_of (contentCache (cleanup_step now s x)) i = map_of (contentCache s) i"
  proof (cases "k = i")
    case True
    with Cons.prems x have "\<not> now - timestamp r > maxAge" by simp
    then show ?thesis by (simp add: x cleanup_step_stores)
  next
    case False
    then show ?thesis by (simp add: x cleanup_step_stores)
  qed
  from Cons.prems have "\<forall>r. (i, r) \<in> set xs \<longrightarrow> \<not> now - timestamp r > maxAge" by simp
  from Cons.IH [OF this, of "cleanup_step now s x"] step show ?case by simp
qed

lemma distinct_keys_run: "distinct (map fst (contentIndex (run ops)))"
proof (rule run_invariant [where P = "\<lambda>s. distinct (map fst (contentIndex s))"])
  show "distinct (map fst (contentIndex new_engine))" by (simp add: new_engine_def)
next
  fix e c and s :: engine
  assume "distinct (map fst (contentIndex s))"
  then show "distinct (map fst (contentIndex (indexContent e s c)))"
    by (cases rule: indexContent_cases [of s c e])
       (simp_all add: updateIndexingStatus_stores indexContent_contentIndex distinct_update)
next
  fix now and s :: engine
  assume "distinct (map fst (contentIndex s))"
  then show "distinct (map fst (contentIndex (cleanupOldContent now s)))"
    unfolding cleanupOldContent_def
    by (rule foldl_invariant) (auto simp: cleanup_step_def distinct_delete)
qed (simp_all add: resetIndexingStatus_def updateContentRelationships_stores)

text \<open>
  C2. After any sequence of operations from the constructor's state, the search projection
  and the metadata store hold exactly the ids of the primary index. An eviction pass
  removes the id of every expired record from all three stores, and leaves what the
  three stores hold under the id of a record that has not expired.
\<close>

theorem projection_totality:
  "fst ` set (contentCache (run ops)) = fst ` set (contentIndex (run ops))
   \<and> fst ` set (metadataStore (run ops)) = fst ` set (contentIndex (run ops))
   \<and> (\<forall>i r now. map_of (contentIndex (run ops)) i = Some r \<and> now - timestamp r > maxAge \<longrightarrow>
         map_of (contentIndex (cleanupOldContent now (run ops))) i = None
         \<and> map_of (metadataStore (cleanupOldContent now (run ops))) i = None
         \<and> map_of (contentCache (cleanupOldContent now (run ops))) i = None)
   \<and> (\<forall>i r now. map_of (contentIndex (run ops)) i = Some r \<and> \<not> now - timestamp r > maxAge \<longrightarrow>
         map_of (contentIndex (cleanupOldContent now (run ops))) i = Some r
         \<and> map_of (metadataStore (cleanupOldContent now (run ops))) i
             = map_of (metadataStore (run ops)) i
         \<and> map_of (contentCache (cleanupOldContent now (run ops))) i
             = map_of (contentCache (run ops)) i)"
proof (intro conjI allI impI)
  from stores_agree_run [of ops]
  have "set (map fst (contentCache (run ops))) = set (map fst (contentIndex (run ops)))"
    and "set (map fst (metadataStore (run ops))) = set (map fst (contentIndex (run ops)))"
    by (simp_all only: stores_agree_def)
  then show "fst ` set (contentCache (run ops)) = fst ` set (contentIndex (run ops))"
    and "fst ` set (metadataStore (run ops)) = fst ` set (contentIndex (run ops))"
    by simp_all
next
  fix i r now
  assume a: "map_of (contentIndex (run ops)) i = Some r \<and> now - timestamp r > maxAge"
  then have "(i, r) \<in> set (contentIndex (run ops))" by (simp add: map_of_SomeD)
  moreover from a have "now - timestamp r > maxAge" by simp
  ultimately have gone: "i \<notin> fst ` set (contentIndex (cleanupOldContent now (run ops)))
     \<and> i \<notin> fst ` set (metadataStore (cleanupOldContent now (run ops)))
     \<and> i \<notin> fst ` set (contentCache (cleanupOldContent now (run ops)))"
    unfolding cleanupOldContent_def by (rule cleanup_expired_gone)
  then show "map_of (contentIndex (cleanupOldContent now (run ops))) i = None"
    and "map_of (metadataStore (cleanupOldContent now (run ops))) i = None"
    and "map_of (contentCache (cleanupOldContent now (run ops))) i = None"
    by (simp_all add: map_of_eq_None_iff)
next
  fix i r now
  assume a: "map_of (contentIndex (run ops)) i = Some r \<and> \<not> now - timestamp r > maxAge"
  have "r' = r" if "(i, r') \<in> set (contentIndex (run ops))" for r'
    using that a distinct_keys_run [of ops] by simp
  with a have "\<forall>r'. (i, r') \<in> set (contentIndex (run ops)) \<longrightarrow> \<not> now - timestamp r' > maxAge"
    by blast
  from cleanup_others_kept [OF this, of "run ops"] a
  show "map_of (contentIndex (cleanupOldContent now (run ops))) i = Some r"
    and "map_of (metadataStore (cleanupOldContent now (run ops))) i
             = map_of (metadataStore (run ops)) i"
    and "map_of (contentCache (cleanupOldContent now (run ops))) i
             = map_of (contentCache (run ops)) i"
    by (simp_all add: cleanupOldContent_def)
qed

theorem projection_totality_witness:
  "\<exists>r1 r2.
     map_of (contentIndex (run two_captures)) (id' formula_record) = Some r1
     \<and> 86401001 - timestamp r1 > maxAge
     \<and> map_of (contentIndex (cleanupOldContent 86401001 (run two_captures))) (id' formula_record) = None
     \<and> map_of (metadataStore (cleanupOldContent 86401001 (run two_captures))) (id' formula_record) = None
     \<and> map_of (contentCache (cleanupOldContent 86401001 (run two_captures))) (id' formula_record) = None
     \<and> map_of (contentIndex (run two_captures)) (id' late_record) = Some r2
     \<and> \<not> 86401001 - timestamp r2 > maxAge
     \<and> map_of (contentIndex (cleanupOldContent 86401001 (run two_captures))) (id' late_record) = Some r2"
proof -
  have "map_option timestamp (map_of (contentIndex (run two_captures)) (id' formula_record)) = Some 1000"
    by code_simp
  then obtain r1 where r1: "map_of (contentIndex (run two_captures)) (id' formula_record) = Some r1"
    and t1: "timestamp r1 = 1000" by auto
  have "map_option timestamp (map_of (contentIndex (run two_captures)) (id' late_record)) = Some 86400000"
    by code_simp
  then obtain r2 where r2: "map_of (contentIndex (run two_captures)) (id' late_record) = Some r2"
    and t2: "timestamp r2 = 86400000" by auto
  have old: "86401001 - timestamp r1 > maxAge" by (simp add: t1 maxAge_def)
  have young: "\<not> 86401001 - timestamp r2 > maxAge" by (simp add: t2 maxAge_def)
  from projection_totality [of two_captures]
  have gone: "\<And>i r now. map_of (contentIndex (run two_captures)) i = Some r \<and> now - timestamp r > maxAge \<Longrightarrow>
         map_of (contentIndex (cleanupOldContent now (run two_captures))) i = None
         \<and> map_of (metadataStore (cleanupOldContent now (run two_captures))) i = None
         \<and> map_of (contentCache (cleanupOldContent now (run two_captures))) i = None"
    and kept: "\<And>i r now. map_of (contentIndex (run two_captures)) i = Some r \<and> \<not> now - timestamp r > maxAge \<Longrightarrow>
         map_of (contentIndex (cleanupOldContent now (run two_captures))) i = Some r"
    by blast+
  from gone [of "id' formula_record" r1 86401001] kept [of "id' late_record" r2 86401001]
    r1 r2 old young
  show ?thesis by blast
qed

subsection \<open>The indexing status\<close>

text \<open>
  C4. The claim fails in a snapshot taken after an eviction and in one taken after a full
  discovery: eviction deletes records and leaves the counter, and the reset of a full
  discovery sets the counter to 0 while the index keeps its records (every element of the
  page is a duplicate here, so no status update follows).
\<close>

theorem total_content_stale:
  "totalContent (indexingStatus
      (cleanupOldContent 86401001 (indexContent (at_time 1000) new_engine health_record)))
     \<noteq> length (contentIndex
      (cleanupOldContent 86401001 (indexContent (at_time 1000) new_engine health_record)))
   \<and> totalContent (indexingStatus
      (performFullContentDiscovery 2000 [(at_time 2000, health_record)]
        (indexContent (at_time 1000) new_engine health_record)))
     \<noteq> length (contentIndex
      (performFullContentDiscovery 2000 [(at_time 2000, health_record)]
        (indexContent (at_time 1000) new_engine health_record)))"
proof
  show "totalContent (indexingStatus
      (cleanupOldContent 86401001 (indexContent (at_time 1000) new_engine health_record)))
     \<noteq> length (contentIndex
      (cleanupOldContent 86401001 (indexContent (at_time 1000) new_engine health_record)))"
    by code_simp
  show "totalContent (indexingStatus
      (performFullContentDiscovery 2000 [(at_time 2000, health_record)]
        (indexContent (at_time 1000) new_engine health_record)))
     \<noteq> length (contentIndex
      (performFullContentDiscovery 2000 [(at_time 2000, health_record)]
        (indexContent (at_time 1000) new_engine health_record)))"
    by code_simp
qed

text \<open>
  C4, amended. Right after a status update the counter is the number of records of the
  primary index, so it is after every call of \<open>indexContent\<close> that is not dropped as a
  duplicate; the reset of a full discovery sets it to 0.
\<close>

theorem total_content_after_status_update:
  "totalContent (indexingStatus (updateIndexingStatus now status s))
     = length (contentIndex (updateIndexingStatus now status s))
   \<and> (\<not> isDuplicate s c \<longrightarrow>
        totalContent (indexingStatus (indexContent e s c))
          = length (contentIndex (indexContent e s c)))
   \<and> totalContent (indexingStatus (resetIndexingStatus now s)) = 0"
  by (simp add: updateIndexingStatus_stores indexContent_totalContent resetIndexingStatus_def)

theorem total_content_after_status_update_witness:
  "\<not> isDuplicate new_engine health_record
   \<and> totalContent (indexingStatus (indexContent (at_time 1000) new_engine health_record))
       = length (contentIndex (indexContent (at_time 1000) new_engine health_record))"
proof -
  have "\<not> isDuplicate new_engine health_record"
    by (simp add: isDuplicate_def new_engine_def)
  with total_content_after_status_update
    [where s = new_engine and c = health_record and e = "at_time 1000"]
  show ?thesis by blast
qed

subsection \<open>Update frequency\<close>







subsection \<open>Search on literal queries\<close>

lemma truncate_with_relevance [simp]: "content.truncate (with_relevance c r) = c"
  by (simp add: with_relevance_def content.truncate_def content.extend_def
      search_result.fields_def)

lemma relevance_with_relevance [simp]: "relevance (with_relevance c r) = r"
  by (simp add: with_relevance_def content.extend_def search_result.fields_def)

lemma add_scores_literal:
  "\<forall>w\<in>set ws. \<not> list_ex is_syntax_char w \<Longrightarrow>
   add_scores rx t n ws = Inr (n + sum_list (map (\<lambda>w. literal_match_count w t) ws))"
  by (induction ws arbitrary: n) (simp_all add: regexp_match_count_def)

text \<open>
  On a query whose words have no syntax character, the loop of \<open>searchContent\<close> returns,
  in the order of the index, the records that pass the filters and contain the query,
  each with the sum of the match counts of the words.
\<close>

lemma collect_results_literal:
  assumes "\<forall>w\<in>set (split_space q). \<not> list_ex is_syntax_char w"
  shows "collect_results rx q f entries =
     Inr (map (\<lambda>c. with_relevance c
                (sum_list (map (\<lambda>w. literal_match_count w (searchable c)) (split_space q))))
          (filter (\<lambda>c. passes_filters f c \<and> str_includes (searchable c) q)
            (map snd entries)))"
proof (induction entries)
  case Nil
  show ?case by simp
next
  case (Cons x entries)
  obtain i c where x: "x = (i, c)" by (cases x)
  have "calculateRelevance rx q (searchable c) =
      Inr (sum_list (map (\<lambda>w. literal_match_count w (searchable c)) (split_space q)))"
    using add_scores_literal [OF assms, of rx "searchable c" 0]
    by (simp add: calculateRelevance_def)
  with Cons.IH show ?case by (simp add: x)
qed

lemma searchContent_literal:
  assumes "\<forall>w\<in>set (split_space (toLowerCase query)). \<not> list_ex is_syntax_char w"
  shows "searchContent rx s query f =
     Inr (sort_key (\<lambda>r. - int (relevance r))
       (map (\<lambda>c. with_relevance c
                (sum_list (map (\<lambda>w. literal_match_count w (searchable c))
                   (split_space (toLowerCase query)))))
          (filter (\<lambda>c. passes_filters f c \<and> str_includes (searchable c) (toLowerCase query))
            (map snd (contentIndex s)))))"
  by (simp add: searchContent_def collect_results_literal [OF assms])

text \<open>Whatever the query, a result of \<open>searchContent\<close> is in descending order of relevance.\<close>

lemma searchContent_sorted:
  assumes "searchContent rx s query f = Inr results"
  shows "sorted (rev (map relevance results))"
proof -
  from assms obtain rs where "results = sort_key (\<lambda>r. - int (relevance r)) rs"
    by (auto simp: searchContent_def split: sum.splits)
  then have "sorted (map (\<lambda>r. - int (relevance r)) results)"
    by (simp add: sorted_sort_key)
  then have "sorted (rev (map (\<lambda>r. int (relevance r)) results))"
    by (induction results) (auto simp: sorted_append)
  then have "sorted (map int (rev (map relevance results)))"
    by (simp add: rev_map comp_def)
  then show ?thesis
    by (simp add: sorted_map sorted_wrt_iff_nth_less)
qed

text \<open>When no record that passes the filters contains the query, the result is the empty list.\<close>

lemma collect_results_no_match:
  "\<not> list_ex (\<lambda>(i, c). passes_filters f c \<and> str_includes (searchable c) q) entries \<Longrightarrow>
   collect_results rx q f entries = Inr []"
  by (induction rx q f entries rule: collect_results.induct) simp_all

lemma searchContent_no_match:
  "\<not> list_ex (\<lambda>(i, c). passes_filters f c \<and> str_includes (searchable c) (toLowerCase query))
       (contentIndex s) \<Longrightarrow>
   searchContent rx s query f = Inr []"
  by (simp add: searchContent_def collect_results_no_match)

text \<open>
  C6. The claim holds for the queries whose words have no syntax character of regular
  expressions (the three lemmas above), and fails beyond: the index holds one record,
  which passes the empty filters and whose searchable text contains the query \<open>f(\<close>, and
  \<open>searchContent\<close> throws a SyntaxError instead of returning that record.
\<close>

theorem search_fails_on_contained_query:
  "list_ex (\<lambda>(i, r). passes_filters no_filters r
        \<and> str_includes (searchable r) (toLowerCase ''f(''))
     (contentIndex (indexContent (at_time 1000) new_engine formula_record))
   \<and> searchContent rx (indexContent (at_time 1000) new_engine formula_record) ''f('' no_filters
       = Inl SyntaxError"
  by code_simp

lemma literal_match_count_empty: "literal_match_count [] t = length t + 1"
proof (induction t)
  case Nil
  show ?case by (subst literal_match_count.simps) (simp add: toLowerCase_def)
next
  case (Cons a t)
  then show ?case by (subst literal_match_count.simps) (simp add: toLowerCase_def)
qed

lemma str_includes_empty: "str_includes t []"
  by (induction t) simp_all

text \<open>
  C10. For the empty query, \<open>searchContent\<close> returns a list that holds, once each, the
  records of the primary index that pass the filters (with the multiplicity of the index,
  as a multiset of the records without their relevance). The relevance of each is the
  length of its searchable text plus one: the empty pattern matches at every position.
\<close>

theorem empty_query_returns_all_filtered:
  "\<exists>results. searchContent rx s '''' f = Inr results
     \<and> mset (map content.truncate results)
         = mset (filter (passes_filters f) (map snd (contentIndex s)))
     \<and> map relevance results
         = map (\<lambda>r. length (searchable (content.truncate r)) + 1) results"
proof -
  let ?k = "\<lambda>r :: search_result. - int (relevance r)"
  let ?rs = "map (\<lambda>c. with_relevance c (length (searchable c) + 1))
     (filter (passes_filters f) (map snd (contentIndex s)))"
  have lit: "\<forall>w\<in>set (split_space (toLowerCase '''')). \<not> list_ex is_syntax_char w"
    by (simp add: toLowerCase_def split_space_def)
  have "searchContent rx s '''' f = Inr (sort_key ?k ?rs)"
    unfolding searchContent_literal [OF lit]
    by (simp add: toLowerCase_def split_space_def literal_match_count_empty str_includes_empty)
  moreover have "mset (map content.truncate (sort_key ?k ?rs))
      = mset (filter (passes_filters f) (map snd (contentIndex s)))"
  proof -
    have "mset (map content.truncate (sort_key ?k ?rs)) = mset (map content.truncate ?rs)"
      by (simp only: mset_map mset_sort)
    also have "map content.truncate ?rs = filter (passes_filters f) (map snd (contentIndex s))"
      by (simp add: comp_def)
    finally show ?thesis .
  qed
  moreover have "map relevance (sort_key ?k ?rs)
      = map (\<lambda>r. length (searchable (content.truncate r)) + 1) (sort_key ?k ?rs)"
  proof (rule map_cong [OF refl])
    fix r assume "r \<in> set (sort_key ?k ?rs)"
    then have "r \<in> set ?rs" by simp
    then show "relevance r = length (searchable (content.truncate r)) + 1" by auto
  qed
  ultimately show ?thesis by blast
qed

end
